theory Spec2Isabelle
  imports Complex_Main
begin

section \<open>Numbers\<close>

text \<open>
  The similarity of two hashes is a JavaScript number obtained by one division of two
  non-negative integers. The only non-finite value that division can produce in
  \<^verbatim>\<open>calculateHammingDistance\<close> is \<^verbatim>\<open>0 / 0\<close>, which is \<^verbatim>\<open>NaN\<close>; every comparison with
  \<^verbatim>\<open>NaN\<close> is false. Finite values are modelled by the reals, and the model keeps the
  exact quotient where the source has the rounded one: for hashes shorter than
  \<open>2 ^ 48\<close> characters the correctly rounded quotient \<open>m / n\<close> compares with the literal
  \<^verbatim>\<open>0.95\<close> exactly as the real quotient compares with \<open>19 / 20\<close>, since a quotient
  below \<open>19 / 20\<close> is below it by at least \<open>1 / (20 * n)\<close>.
\<close>

datatype number = NaN | Fin real

fun number_ge :: "number \<Rightarrow> real \<Rightarrow> bool" where
  "number_ge NaN r = False"
| "number_ge (Fin x) r = (r \<le> x)"

section \<open>Hash matcher (src/detection/hashMatcher.ts)\<close>

text \<open>
  \<^verbatim>\<open>
  let matches = 0;
  for (let i = 0; i < hash1.length; i++) {
    if (hash1[i] === hash2[i]) { matches++; }
  }
  \<close>
  The loop, from index \<open>i\<close> with the counter \<open>matches\<close>. It is only entered when both
  strings have the same length, so \<open>hash2 ! i\<close> is in range. A hash is a string of
  hexadecimal digits, one \<open>char\<close> for each character of the source's string.
\<close>

function countMatches :: "nat \<Rightarrow> string \<Rightarrow> string \<Rightarrow> nat \<Rightarrow> nat" where
  "countMatches i hash1 hash2 matches =
     (if i < length hash1
      then countMatches (i + 1) hash1 hash2
             (if hash1 ! i = hash2 ! i then matches + 1 else matches)
      else matches)"
  by pat_completeness auto
termination
  by (relation "measure (\<lambda>(i, hash1, hash2, matches). length hash1 - i)") auto

declare countMatches.simps [simp del]

definition calculateHammingDistance :: "string \<Rightarrow> string \<Rightarrow> number" where
  "calculateHammingDistance hash1 hash2 =
     (if length hash1 \<noteq> length hash2 then Fin 0
      else if length hash1 = 0 then NaN
      else Fin (real (countMatches 0 hash1 hash2 0) / real (length hash1)))"

text \<open>A row of the \<^verbatim>\<open>hashDatabase\<close> table, with the columns the matcher reads or filters on.\<close>

record HashDatabase =
  hash :: string
  severity :: string
  active :: bool

record HashMatchResult =
  matched :: bool
  computedHash :: string
  matchedHash :: "string option"
  similarity :: "number option"

text \<open>
  The \<^verbatim>\<open>for (const knownHash of knownHashes)\<close> loop of \<^verbatim>\<open>checkHashMatch\<close>: it returns at
  the first row whose similarity reaches \<^verbatim>\<open>0.95\<close>.
\<close>

fun matchLoop :: "string \<Rightarrow> HashDatabase list \<Rightarrow> HashMatchResult" where
  "matchLoop h [] =
     \<lparr>matched = False, computedHash = h, matchedHash = None, similarity = None\<rparr>"
| "matchLoop h (knownHash # rest) =
     (let sim = calculateHammingDistance h (hash knownHash) in
      if number_ge sim (95 / 100)
      then \<lparr>matched = True, computedHash = h, matchedHash = Some (hash knownHash),
             similarity = Some sim\<rparr>
      else matchLoop h rest)"

text \<open>
  The errors that a scan throws to its caller: \<^verbatim>\<open>Failed to compute perceptual hash\<close>,
  \<^verbatim>\<open>Failed to download image\<close> and \<^verbatim>\<open>Image exceeds maximum size limit\<close>.
\<close>

datatype error = HashComputationError | DownloadFailure | ImageTooLarge

text \<open>
  \<^verbatim>\<open>computePerceptualHash\<close> calls an image library; its outcome (the hash, or the thrown
  error) is the first argument. \<^verbatim>\<open>findMany({ where: { active: true } })\<close> is the filter.
  The field \<^verbatim>\<open>processingTimeMs\<close> reads the clock and is left out.
\<close>

definition checkHashMatch :: "error + string \<Rightarrow> HashDatabase list \<Rightarrow> error + HashMatchResult" where
  "checkHashMatch computed db =
     (case computed of
        Inl e \<Rightarrow> Inl e
      | Inr h \<Rightarrow> Inr (matchLoop h (filter HashDatabase.active db)))"

section \<open>Persisted records and the chat platform\<close>

text \<open>
  The tables are reached through Prisma. A table is modelled by the list of its rows in
  the order of creation; the generated primary key of a row of \<^verbatim>\<open>ban\<close>, \<^verbatim>\<open>timeout\<close>
  and \<^verbatim>\<open>detection\<close> is its position in the list, and rows are never deleted. Users are
  keyed by their Discord id. Columns that hold times, and the display columns
  \<^verbatim>\<open>username\<close> and \<^verbatim>\<open>discriminator\<close>, are left out. A new user row has
  \<^verbatim>\<open>globallyBanned = false\<close>. \<^verbatim>\<open>update\<close> of a row that does not exist throws, which the
  callers catch; the store itself is taken to be available.
\<close>

record User =
  offenseCount :: int
  globallyBanned :: bool

record Detection =
  userId :: string
  guildId :: string
  channelId :: string
  messageId :: string
  imageUrl :: string
  imageHash :: string
  detectionMethod :: string
  confidenceScore :: real
  flagged :: bool
  actionTaken :: string

record ModeratorReview =
  detectionId :: nat
  status :: string

record Timeout =
  userId :: string
  guildId :: string
  level :: int
  reason :: string
  timeoutType :: string
  active :: bool

record Ban =
  userId :: string
  guildId :: string
  level :: int
  reason :: string
  banType :: string
  active :: bool

text \<open>The columns of a guild's configuration row that the message handler reads.\<close>

record Guild =
  detectionEnabled :: bool
  autoDelete :: bool
  autoBan :: bool

text \<open>
  The calls made to the chat platform and to the notification helpers of
  \<^verbatim>\<open>moderatorAlert.ts\<close>, in the order they are made: a ban of a user in a guild, the
  deletion of a message, a reaction to a message, \<^verbatim>\<open>alertModerators\<close> (guild, user,
  action text), \<^verbatim>\<open>sendDMAlert\<close> (user), \<^verbatim>\<open>notifyModeratorOfPendingReview\<close> (guild,
  detection id, user) and a message to the moderation channel (title). The three
  helpers catch their own errors; whether their message is delivered depends on the
  guild's alert channel.
\<close>

datatype effect =
    BanMember string string
  | DeleteMessage string
  | React string
  | AlertModerators string string string
  | SendDMAlert string
  | NotifyModeratorOfPendingReview string nat string
  | ModChannelSend string

record World =
  users :: "string \<rightharpoonup> User"
  bans :: "Ban list"
  timeouts :: "Timeout list"
  detections :: "Detection list"
  moderatorReviews :: "ModeratorReview list"
  effects :: "effect list"

text \<open>
  What the chat platform does with the bot's calls: the guilds of
  \<^verbatim>\<open>client.guilds.cache\<close> in iteration order; for each guild whether
  \<^verbatim>\<open>guild.members.ban\<close> throws there (\<open>Some\<close> of the error's message) or succeeds;
  whether \<^verbatim>\<open>message.delete\<close> and \<^verbatim>\<open>message.react\<close> throw; whether the configured
  moderation channel resolves to a text channel, and whether sending to it throws.
\<close>

record Client =
  guildsCache :: "string list"
  banError :: "string \<Rightarrow> string option"
  deleteThrows :: bool
  reactThrows :: bool
  modChannel :: bool
  sendThrows :: bool

section \<open>Classifier adapter (src/detection/apiDetector.ts, worker/index.ts)\<close>

text \<open>
  The part of \<^verbatim>\<open>config.detection\<close> that the detection chain reads. An environment
  variable that is set to the empty string is falsy in the source's tests
  (\<^verbatim>\<open>!config.detection.workerUrl\<close>), which \<open>truthy\<close> writes out. Confidence scores and
  thresholds are finite JavaScript numbers, modelled by the reals; the code only compares
  them.
\<close>

record DetectionConfig =
  workerUrl :: "string option"
  workerApiKey :: "string option"
  sightengine :: "(string \<times> string) option"
  detectionThreshold :: real
  reviewThreshold :: real
  maxConcurrentScans :: nat

definition truthy :: "string option \<Rightarrow> bool" where
  "truthy v = (case v of None \<Rightarrow> False | Some s \<Rightarrow> s \<noteq> [])"

record APIDetectionResult =
  detected :: bool
  confidence :: real
  provider :: string
  labels :: "string list option"
  error :: "string option"

text \<open>
  An awaited call to a collaborator either throws an error with a message or returns a
  value. The outcomes of the HTTP calls are inputs of the model.
\<close>

datatype 'a outcome = Threw string | Returned 'a

definition threw :: "'a outcome \<Rightarrow> bool" where
  "threw out = (case out of Threw msg \<Rightarrow> True | Returned v \<Rightarrow> False)"

text \<open>The calls that a scan makes to the classifier adapter and to the providers.\<close>

datatype call = DetectWithAPI | WorkerPost | SightengineGet

text \<open>The worker (worker/index.ts): entries of the image model's answer.\<close>

record AiLabel =
  label :: string
  score :: real

definition toLowerCase :: "string \<Rightarrow> string" where
  "toLowerCase s =
     map (\<lambda>c. if 65 \<le> (of_char c :: nat) \<and> (of_char c :: nat) \<le> 90
              then char_of ((of_char c :: nat) + 32) else c) s"

fun includes_str :: "string \<Rightarrow> string \<Rightarrow> bool" where
  "includes_str [] t = (t = [])"
| "includes_str (c # cs) t = (take (length t) (c # cs) = t \<or> includes_str cs t)"

definition isNsfwLabel :: "AiLabel \<Rightarrow> bool" where
  "isNsfwLabel r =
     (includes_str (toLowerCase (label r)) ''nsfw'' \<or>
      includes_str (toLowerCase (label r)) ''nude'' \<or>
      includes_str (toLowerCase (label r)) ''adult'')"

text \<open>
  \<^verbatim>\<open>detectImage\<close> of the worker. Its argument is the outcome of the two fetches (a failed
  fetch or a non-ok status throws); \<open>None\<close> is an answer without a \<^verbatim>\<open>result\<close> field
  (\<^verbatim>\<open>aiResult.result || []\<close>). The threshold \<^verbatim>\<open>0.85\<close> is a literal of the worker.
\<close>

definition detectImage :: "AiLabel list option outcome \<Rightarrow> APIDetectionResult" where
  "detectImage fetched =
     (case fetched of
        Threw msg \<Rightarrow>
          \<lparr>detected = False, confidence = 0, provider = ''cloudflare-worker'',
           labels = None, error = Some msg\<rparr>
      | Returned aiResult \<Rightarrow>
          (let result = (case aiResult of None \<Rightarrow> [] | Some rs \<Rightarrow> rs);
               nsfwLabels = filter isNsfwLabel result;
               nsfwScore = (case nsfwLabels of [] \<Rightarrow> 0 | r # _ \<Rightarrow> score r)
           in \<lparr>detected = (nsfwScore > 85 / 100), confidence = nsfwScore,
               provider = ''cloudflare-worker'', labels = Some (map label result),
               error = None\<rparr>))"

text \<open>
  \<^verbatim>\<open>detectWithCloudflareWorker\<close>: the second argument is the outcome of \<^verbatim>\<open>axios.post\<close>
  (a network error, a non-2xx status and the 15 s timeout all throw); a returned body
  has the shape the worker sends. Each function also returns the calls it made.
\<close>

definition detectWithCloudflareWorker ::
  "DetectionConfig \<Rightarrow> APIDetectionResult outcome \<Rightarrow> APIDetectionResult \<times> call list" where
  "detectWithCloudflareWorker cfg posted =
     (if \<not> truthy (workerUrl cfg) \<or> \<not> truthy (workerApiKey cfg)
      then (\<lparr>detected = False, confidence = 0, provider = ''cloudflare-worker'',
             labels = None,
             error = Some ''Cloudflare Worker URL or API key not configured''\<rparr>, [])
      else (case posted of
              Threw msg \<Rightarrow>
                (\<lparr>detected = False, confidence = 0, provider = ''cloudflare-worker'',
                  labels = None, error = Some msg\<rparr>, [WorkerPost])
            | Returned result \<Rightarrow>
                (\<lparr>detected = detected result, confidence = confidence result,
                  provider = ''cloudflare-worker'', labels = labels result,
                  error = None\<rparr>, [WorkerPost])))"

text \<open>
  The fields of Sightengine's answer that are read; \<open>None\<close> is an absent field
  (\<^verbatim>\<open>data.nudity?.sexual_activity\<close>). \<open>orElse\<close> is \<^verbatim>\<open>a || b\<close> on numbers: an absent or
  zero left operand gives the right one.
\<close>

record SightengineData =
  sexual_activity :: "real option"
  sexual_display :: "real option"
  offensive_prob :: "real option"

definition orElse :: "real option \<Rightarrow> real \<Rightarrow> real" where
  "orElse a b = (case a of None \<Rightarrow> b | Some x \<Rightarrow> if x = 0 then b else x)"

definition detectWithSightengine ::
  "DetectionConfig \<Rightarrow> SightengineData outcome \<Rightarrow> APIDetectionResult \<times> call list" where
  "detectWithSightengine cfg got =
     (if sightengine cfg = None
      then (\<lparr>detected = False, confidence = 0, provider = ''sightengine'',
             labels = None, error = Some ''Sightengine API not configured''\<rparr>, [])
      else (case got of
              Threw msg \<Rightarrow>
                (\<lparr>detected = False, confidence = 0, provider = ''sightengine'',
                  labels = None, error = Some msg\<rparr>, [SightengineGet])
            | Returned data \<Rightarrow>
                (let nudityScore = orElse (sexual_activity data) (orElse (sexual_display data) 0);
                     offensiveScore = orElse (offensive_prob data) 0;
                     conf = max nudityScore offensiveScore
                 in (\<lparr>detected = (conf > detectionThreshold cfg), confidence = conf,
                       provider = ''sightengine'', labels = Some [], error = None\<rparr>,
                     [SightengineGet]))))"

record Providers =
  workerAnswer :: "APIDetectionResult outcome"
  sightengineAnswer :: "SightengineData outcome"

definition detectWithAPI :: "DetectionConfig \<Rightarrow> Providers \<Rightarrow> APIDetectionResult \<times> call list" where
  "detectWithAPI cfg env =
     (if truthy (workerUrl cfg) then detectWithCloudflareWorker cfg (workerAnswer env)
      else if sightengine cfg \<noteq> None then detectWithSightengine cfg (sightengineAnswer env)
      else (\<lparr>detected = False, confidence = 0, provider = ''none'', labels = None,
              error = Some ''No API provider configured''\<rparr>, []))"

section \<open>Detection pipeline (src/detection/detectionPipeline.ts)\<close>

record DetectionResult =
  flagged :: bool
  confidence :: real
  "method" :: string
  requiresReview :: bool
  hash :: string
  hashMatch :: "HashMatchResult option"
  apiDetection :: "APIDetectionResult option"

text \<open>
  \<^verbatim>\<open>scanImage\<close>. A thrown error of the hash stage is rethrown (\<open>Inl\<close>). The second
  component lists the calls to the classifier adapter and to the providers, in order.
  \<^verbatim>\<open>totalProcessingTimeMs\<close> reads the clock and is left out.
\<close>

definition scanImage ::
  "DetectionConfig \<Rightarrow> error + string \<Rightarrow> HashDatabase list \<Rightarrow> Providers \<Rightarrow>
   (error + DetectionResult) \<times> call list" where
  "scanImage cfg computed db env =
     (case checkHashMatch computed db of
        Inl e \<Rightarrow> (Inl e, [])
      | Inr hashResult \<Rightarrow>
          if matched hashResult
          then (Inr \<lparr>flagged = True, confidence = 1, method = ''hash_match'',
                     requiresReview = False, hash = computedHash hashResult,
                     hashMatch = Some hashResult, apiDetection = None\<rparr>, [])
          else (let (apiResult, calls) = detectWithAPI cfg env;
                    flagged = detected apiResult;
                    conf = APIDetectionResult.confidence apiResult;
                    requiresReview = (conf \<ge> reviewThreshold cfg \<and> conf < detectionThreshold cfg)
                in (Inr \<lparr>flagged = flagged, confidence = conf, method = provider apiResult,
                          requiresReview = requiresReview, hash = computedHash hashResult,
                          hashMatch = Some hashResult, apiDetection = Some apiResult\<rparr>,
                    DetectWithAPI # calls)))"

section \<open>Scan scheduler (class DetectionQueue of src/detection/detectionPipeline.ts)\<close>

text \<open>
  The class has the fields \<^verbatim>\<open>queue\<close> and \<^verbatim>\<open>processing\<close>. JavaScript runs the
  synchronous part of \<^verbatim>\<open>add\<close> (push, then \<^verbatim>\<open>processNext\<close> up to its \<^verbatim>\<open>await\<close>) and the
  \<^verbatim>\<open>finally\<close> block of a settled scan (decrement, then \<^verbatim>\<open>processNext\<close>) without
  interleaving, so the scheduler is a transition system with two kinds of events.
  The state of the model has three more components, which the class does not store:
  \<open>scanning\<close>, the items whose \<^verbatim>\<open>scanImage\<close> call has started and not settled (the
  suspended invocations of \<^verbatim>\<open>processNext\<close>); \<open>admitted\<close>, the items in the order they
  left the queue; and \<open>submitted\<close>, the items in the order they were pushed. The bound
  \<^verbatim>\<open>maxConcurrentScans\<close> is a count, the argument \<open>n\<close>.
\<close>

record 'a DetectionQueue =
  queue :: "'a list"
  processing :: int
  scanning :: "'a list"
  admitted :: "'a list"
  submitted :: "'a list"

text \<open>
  \<^verbatim>\<open>
  if (this.processing >= config.detection.maxConcurrentScans || this.queue.length === 0) return;
  const item = this.queue.shift();
  if (!item) return;
  this.processing++;
  ... await scanImage(item.imageBuffer, item.imageUrl) ...
  \<close>
\<close>

definition processNext :: "nat \<Rightarrow> 'a DetectionQueue \<Rightarrow> 'a DetectionQueue" where
  "processNext n s =
     (if processing s \<ge> int n \<or> length (queue s) = 0 then s
      else (case queue s of
              [] \<Rightarrow> s
            | item # rest \<Rightarrow>
                s\<lparr>queue := rest, processing := processing s + 1,
                  scanning := scanning s @ [item], admitted := admitted s @ [item]\<rparr>))"

text \<open>\<^verbatim>\<open>add\<close>: \<^verbatim>\<open>this.queue.push(...); this.processNext();\<close>\<close>

definition add :: "nat \<Rightarrow> 'a \<Rightarrow> 'a DetectionQueue \<Rightarrow> 'a DetectionQueue" where
  "add n item s = processNext n (s\<lparr>queue := queue s @ [item], submitted := submitted s @ [item]\<rparr>)"

text \<open>
  A scan settles, with a result or an error:
  \<^verbatim>\<open>finally { this.processing--; this.processNext(); }\<close>
\<close>

definition settle :: "nat \<Rightarrow> 'a \<Rightarrow> 'a DetectionQueue \<Rightarrow> 'a DetectionQueue" where
  "settle n item s =
     processNext n (s\<lparr>scanning := remove1 item (scanning s), processing := processing s - 1\<rparr>)"

text \<open>
  An event is a submission or the settling of a scan; only a scan that is running can
  settle. \<open>run\<close> is \<open>None\<close> for a sequence of events that cannot happen.
\<close>

datatype 'a event = Add 'a | Settle 'a

definition fire :: "nat \<Rightarrow> 'a event \<Rightarrow> 'a DetectionQueue \<Rightarrow> 'a DetectionQueue option" where
  "fire n e s =
     (case e of
        Add item \<Rightarrow> Some (add n item s)
      | Settle item \<Rightarrow> if item \<in> set (scanning s) then Some (settle n item s) else None)"

fun run :: "nat \<Rightarrow> 'a event list \<Rightarrow> 'a DetectionQueue \<Rightarrow> 'a DetectionQueue option" where
  "run n [] s = Some s"
| "run n (e # es) s = (case fire n e s of None \<Rightarrow> None | Some s' \<Rightarrow> run n es s')"

definition emptyQueue :: "'a DetectionQueue" where
  "emptyQueue = \<lparr>queue = [], processing = 0, scanning = [], admitted = [], submitted = []\<rparr>"

fun submissions :: "'a event list \<Rightarrow> 'a list" where
  "submissions [] = []"
| "submissions (Add item # es) = item # submissions es"
| "submissions (Settle item # es) = submissions es"

text \<open>The invariant of the scheduler.\<close>

definition queue_inv :: "nat \<Rightarrow> 'a DetectionQueue \<Rightarrow> bool" where
  "queue_inv n s \<longleftrightarrow>
     processing s = int (length (scanning s)) \<and> length (scanning s) \<le> n \<and>
     admitted s @ queue s = submitted s"

section \<open>Ban manager (src/bot/handlers/banManager.ts)\<close>

record BanResult =
  success :: bool
  resultLevel :: int
  requiresModeratorReview :: bool
  message :: string

definition executeServerBan ::
  "Client \<Rightarrow> string \<Rightarrow> string \<Rightarrow> string \<Rightarrow> World \<Rightarrow> BanResult \<times> World" where
  "executeServerBan client uid gid why w =
     (if gid \<notin> set (guildsCache client)
      then (\<lparr>success = False, resultLevel = 1, requiresModeratorReview = False,
             message = ''Guild not found''\<rparr>, w)
      else (let w1 = w\<lparr>effects := effects w @ [BanMember gid uid]\<rparr> in
            case banError client gid of
              Some msg \<Rightarrow>
                (\<lparr>success = False, resultLevel = 1, requiresModeratorReview = False,
                  message = ''Ban failed: '' @ msg\<rparr>, w1)
            | None \<Rightarrow>
                (\<lparr>success = True, resultLevel = 1, requiresModeratorReview = False,
                  message = ''User banned from server (first offense)''\<rparr>,
                 w1\<lparr>bans := bans w1 @
                      [\<lparr>userId = uid, guildId = gid, level = 1, reason = why,
                        banType = ''server'', active = True\<rparr>]\<rparr>)))"

definition queueForGlobalBan :: "string \<Rightarrow> string \<Rightarrow> string \<Rightarrow> World \<Rightarrow> BanResult \<times> World" where
  "queueForGlobalBan uid gid why w =
     (\<lparr>success = True, resultLevel = 2, requiresModeratorReview = True,
       message = ''User queued for global ban (requires moderator approval)''\<rparr>,
      w\<lparr>bans := bans w @
           [\<lparr>userId = uid, guildId = gid, level = 2, reason = why,
             banType = ''global_pending'', active = False\<rparr>]\<rparr>)"

text \<open>
  \<^verbatim>\<open>handleUserOffense\<close>: find or create the user, increment \<^verbatim>\<open>offenseCount\<close>, branch on
  the incremented value.
\<close>

definition handleUserOffense ::
  "Client \<Rightarrow> string \<Rightarrow> string \<Rightarrow> string \<Rightarrow> World \<Rightarrow> BanResult \<times> World" where
  "handleUserOffense client uid gid why w =
     (let found = (case users w uid of
                     None \<Rightarrow> \<lparr>offenseCount = 0, globallyBanned = False\<rparr>
                   | Some u \<Rightarrow> u);
          user = found\<lparr>offenseCount := offenseCount found + 1\<rparr>;
          w1 = w\<lparr>users := (users w)(uid \<mapsto> user)\<rparr>
      in if offenseCount user = 1
         then executeServerBan client uid gid why w1
         else queueForGlobalBan uid gid why w1)"

text \<open>
  The fan-out loop of \<^verbatim>\<open>approveGlobalBan\<close>, with the counter \<^verbatim>\<open>bannedCount\<close>:
  \<^verbatim>\<open>
  for (const guild of guilds) {
    try { await guild.members.ban(...); bannedCount++; } catch (error) { logger.error(...) }
  }
  \<close>
\<close>

fun banInGuilds :: "Client \<Rightarrow> string \<Rightarrow> string list \<Rightarrow> World \<times> nat \<Rightarrow> World \<times> nat" where
  "banInGuilds client uid [] (w, bannedCount) = (w, bannedCount)"
| "banInGuilds client uid (g # gs) (w, bannedCount) =
     (let w1 = w\<lparr>effects := effects w @ [BanMember g uid]\<rparr> in
      case banError client g of
        None \<Rightarrow> banInGuilds client uid gs (w1, bannedCount + 1)
      | Some msg \<Rightarrow> banInGuilds client uid gs (w1, bannedCount))"

text \<open>
  \<^verbatim>\<open>approveGlobalBan(banId, moderatorId, client)\<close> of the ban manager. The result is the
  returned boolean and the new state.
\<close>

definition approveGlobalBan :: "Client \<Rightarrow> nat \<Rightarrow> string \<Rightarrow> World \<Rightarrow> bool \<times> World" where
  "approveGlobalBan client banId moderatorId w =
     (if banId \<ge> length (bans w) then (False, w)
      else (let ban = bans w ! banId in
            if banType ban \<noteq> ''global_pending'' then (False, w)
            else (let w1 = w\<lparr>bans := (bans w)[banId := ban\<lparr>banType := ''global'', active := True\<rparr>]\<rparr> in
                  case users w1 (userId ban) of
                    None \<Rightarrow> (False, w1)
                  | Some u \<Rightarrow>
                      (let w2 = w1\<lparr>users := (users w1)(userId ban \<mapsto> u\<lparr>globallyBanned := True\<rparr>)\<rparr>
                       in (True, fst (banInGuilds client (userId ban) (guildsCache client) (w2, 0)))))))"

definition rejectGlobalBan :: "nat \<Rightarrow> string \<Rightarrow> string \<Rightarrow> World \<Rightarrow> bool \<times> World" where
  "rejectGlobalBan banId moderatorId notes w =
     (if banId \<ge> length (bans w) then (False, w)
      else (True, w\<lparr>bans := (bans w)[banId := (bans w ! banId)\<lparr>banType := ''global_rejected'',
                                                             active := False\<rparr>]\<rparr>))"

section \<open>Timeout manager (src/bot/handlers/timeoutManager.ts)\<close>

text \<open>\<^verbatim>\<open>prisma.timeout.updateMany({ where: { userId, timeoutType: 'pending_review' }, data })\<close>\<close>

definition updatePendingTimeouts :: "string \<Rightarrow> string \<Rightarrow> bool \<Rightarrow> Timeout list \<Rightarrow> Timeout list" where
  "updatePendingTimeouts uid newType newActive ts =
     map (\<lambda>t. if Timeout.userId t = uid \<and> timeoutType t = ''pending_review''
              then t\<lparr>timeoutType := newType, Timeout.active := newActive\<rparr> else t) ts"

text \<open>
  The closing notification of both functions: when the moderation channel is configured
  and found, \<^verbatim>\<open>await modChannel.send(...)\<close> inside the function's \<^verbatim>\<open>try\<close>; an error
  thrown there reaches the \<^verbatim>\<open>catch\<close>, which returns \<^verbatim>\<open>false\<close>.
\<close>

definition notifyModChannel :: "Client \<Rightarrow> string \<Rightarrow> World \<Rightarrow> bool \<times> World" where
  "notifyModChannel client title w =
     (if modChannel client
      then (let w1 = w\<lparr>effects := effects w @ [ModChannelSend title]\<rparr> in
            if sendThrows client then (False, w1) else (True, w1))
      else (True, w))"

definition timeoutManager_approveGlobalBan ::
  "Client \<Rightarrow> string \<Rightarrow> string \<Rightarrow> World \<Rightarrow> bool \<times> World" where
  "timeoutManager_approveGlobalBan client uid moderatorId w =
     (case users w uid of
        None \<Rightarrow> (False, w)
      | Some u \<Rightarrow>
          (let w1 = w\<lparr>users := (users w)(uid \<mapsto> u\<lparr>globallyBanned := True\<rparr>)\<rparr>;
               w2 = w1\<lparr>timeouts := updatePendingTimeouts uid ''global_approved'' True (timeouts w1)\<rparr>;
               w3 = fst (banInGuilds client uid (guildsCache client) (w2, 0))
           in notifyModChannel client ''Global Ban Approved'' w3))"

definition timeoutManager_rejectGlobalBan ::
  "Client \<Rightarrow> string \<Rightarrow> string \<Rightarrow> string \<Rightarrow> World \<Rightarrow> bool \<times> World" where
  "timeoutManager_rejectGlobalBan client uid moderatorId notes w =
     notifyModChannel client ''Global Ban Rejected''
       (w\<lparr>timeouts := updatePendingTimeouts uid ''global_rejected'' False (timeouts w)\<rparr>)"

section \<open>Message handler (src/bot/events/messageCreate.ts)\<close>

text \<open>The parts of a message the handler reads: its id, its author, its guild, its channel.\<close>

record Message =
  msgId :: string
  authorId :: string
  msgGuildId :: string
  msgChannelId :: string

text \<open>\<^verbatim>\<open>prisma.detection.updateMany({ where: { messageId }, data: { actionTaken } })\<close>\<close>

definition updateActionTaken :: "string \<Rightarrow> string \<Rightarrow> Detection list \<Rightarrow> Detection list" where
  "updateActionTaken mid action ds =
     map (\<lambda>d. if messageId d = mid then d\<lparr>actionTaken := action\<rparr> else d) ds"

text \<open>
  \<^verbatim>\<open>prisma.detection.findFirst({ where: { messageId }, orderBy: { createdAt: 'desc' } })\<close>:
  the id of the row created last among those of the message.
\<close>

definition findLatestDetection :: "string \<Rightarrow> Detection list \<Rightarrow> nat option" where
  "findLatestDetection mid ds =
     (case filter (\<lambda>i. messageId (ds ! i) = mid) (rev [0..<length ds]) of
        [] \<Rightarrow> None
      | i # _ \<Rightarrow> Some i)"

text \<open>
  \<^verbatim>\<open>handleFlaggedContent\<close>. An error thrown by \<^verbatim>\<open>message.delete\<close> ends the function in
  its \<^verbatim>\<open>catch\<close>. The reason text passed on is the detection method; the formatted
  percentage that the source appends is left out.
\<close>

definition handleFlaggedContent ::
  "Client \<Rightarrow> Message \<Rightarrow> DetectionResult \<Rightarrow> Guild \<Rightarrow> World \<Rightarrow> World" where
  "handleFlaggedContent client msg detection guildConfig w =
     (let w1 = (if autoDelete guildConfig
                then w\<lparr>effects := effects w @ [DeleteMessage (msgId msg)]\<rparr> else w)
      in if autoDelete guildConfig \<and> deleteThrows client then w1
         else (let w2 = w1\<lparr>detections := updateActionTaken (msgId msg) ''deleted'' (detections w1)\<rparr>;
                   w3 = (if autoBan guildConfig
                         then (let (banResult, wb) =
                                     handleUserOffense client (authorId msg) (msgGuildId msg)
                                       (''CSAM detection: '' @ method detection) w2
                               in wb\<lparr>detections :=
                                       updateActionTaken (msgId msg)
                                         (''deleted_and_banned_level_'' @
                                            (if resultLevel banResult = 1 then ''1'' else ''2''))
                                         (detections wb)\<rparr>)
                         else w2)
               in w3\<lparr>effects := effects w3 @
                       [AlertModerators (msgGuildId msg) (authorId msg)
                          (if autoBan guildConfig
                           then ''Deleted and banned (Level '' @
                                  (if flagged detection then ''1'' else ''2'') @ '')''
                           else ''Deleted''),
                        SendDMAlert (authorId msg)]\<rparr>))"

text \<open>
  \<^verbatim>\<open>handleReviewRequired\<close>. An error thrown by \<^verbatim>\<open>message.react\<close> ends the function in
  its \<^verbatim>\<open>catch\<close>, before the review item is created.
\<close>

definition handleReviewRequired :: "Client \<Rightarrow> Message \<Rightarrow> DetectionResult \<Rightarrow> World \<Rightarrow> World" where
  "handleReviewRequired client msg detection w =
     (let w1 = w\<lparr>effects := effects w @ [React (msgId msg)]\<rparr>
      in if reactThrows client then w1
         else (case findLatestDetection (msgId msg) (detections w1) of
                 None \<Rightarrow> w1
               | Some detectionRecord \<Rightarrow>
                   w1\<lparr>moderatorReviews := moderatorReviews w1 @
                         [\<lparr>detectionId = detectionRecord, status = ''pending''\<rparr>],
                      effects := effects w1 @
                         [NotifyModeratorOfPendingReview (msgGuildId msg) detectionRecord
                            (authorId msg)]\<rparr>))"

text \<open>
  \<^verbatim>\<open>processImageAttachment\<close>. The argument \<open>scanned\<close> is the outcome of
  \<^verbatim>\<open>scanImageQueued\<close>: an error (download, size or hash failure), which the function's
  \<^verbatim>\<open>catch\<close> logs, or the detection result. The \<^verbatim>\<open>metadata\<close> column is left out.
\<close>

definition processImageAttachment ::
  "Client \<Rightarrow> Message \<Rightarrow> string \<Rightarrow> Guild \<Rightarrow> error + DetectionResult \<Rightarrow> World \<Rightarrow> World" where
  "processImageAttachment client msg url guildConfig scanned w =
     (case scanned of
        Inl e \<Rightarrow> w
      | Inr detection \<Rightarrow>
          (let w1 = w\<lparr>detections := detections w @
                       [\<lparr>Detection.userId = authorId msg, Detection.guildId = msgGuildId msg,
                         channelId = msgChannelId msg, messageId = msgId msg,
                         imageUrl = url, imageHash = hash detection,
                         detectionMethod = method detection,
                         confidenceScore = DetectionResult.confidence detection,
                         Detection.flagged = flagged detection,
                         actionTaken = (if flagged detection then ''pending'' else ''none'')\<rparr>]\<rparr>
           in if flagged detection \<and> \<not> requiresReview detection
              then handleFlaggedContent client msg detection guildConfig w1
              else if requiresReview detection
              then handleReviewRequired client msg detection w1
              else w1))"

section \<open>Properties of the hash matcher\<close>

lemma countMatches_sym:
  "length hash1 = length hash2 \<Longrightarrow>
   countMatches i hash1 hash2 m = countMatches i hash2 hash1 m"
proof (induction i hash1 hash2 m rule: countMatches.induct)
  case (1 i hash1 hash2 matches)
  show ?case
  proof (cases "i < length hash1")
    case True
    have "countMatches i hash1 hash2 matches =
          countMatches (i + 1) hash1 hash2 (if hash1 ! i = hash2 ! i then matches + 1 else matches)"
      using True by (subst countMatches.simps) simp
    also have "\<dots> =
          countMatches (i + 1) hash2 hash1 (if hash1 ! i = hash2 ! i then matches + 1 else matches)"
      using "1.IH" [OF True] "1.prems" by simp
    also have "\<dots> = countMatches i hash2 hash1 matches"
      using True "1.prems" by (subst (2) countMatches.simps) (simp add: eq_commute)
    finally show ?thesis .
  next
    case False
    then show ?thesis
      using "1.prems" by (simp add: countMatches.simps)
  qed
qed

lemma countMatches_same:
  "hash1 = hash2 \<Longrightarrow> countMatches i hash1 hash2 m = m + (length hash1 - i)"
proof (induction i hash1 hash2 m rule: countMatches.induct)
  case (1 i hash1 hash2 matches)
  show ?case
  proof (cases "i < length hash1")
    case True
    then show ?thesis
      using "1.IH" [OF True "1.prems"] "1.prems" by (subst countMatches.simps) simp
  next
    case False
    then show ?thesis by (simp add: countMatches.simps)
  qed
qed

text \<open>
  Claim C9, as the code has it. The similarity of two hashes of equal length does not depend
  on the order of the arguments; a non-empty hash has similarity 1 with itself; two hashes of
  different length have similarity 0 and nothing is raised. (Two empty hashes are left out:
  the quotient is then \<^verbatim>\<open>0 / 0\<close>.)
\<close>

theorem similarity_symmetric_reflexive:
  "(length h1 = length h2 \<longrightarrow>
      calculateHammingDistance h1 h2 = calculateHammingDistance h2 h1) \<and>
   (h \<noteq> [] \<longrightarrow> calculateHammingDistance h h = Fin 1) \<and>
   (length a \<noteq> length b \<longrightarrow> calculateHammingDistance a b = Fin 0)"
proof (intro conjI impI)
  assume "length h1 = length h2"
  then show "calculateHammingDistance h1 h2 = calculateHammingDistance h2 h1"
    by (simp add: calculateHammingDistance_def countMatches_sym [of h1 h2 0 0])
next
  assume "h \<noteq> []"
  then show "calculateHammingDistance h h = Fin 1"
    by (simp add: calculateHammingDistance_def countMatches_same)
next
  assume "length a \<noteq> length b"
  then show "calculateHammingDistance a b = Fin 0"
    by (simp add: calculateHammingDistance_def)
qed

theorem similarity_symmetric_reflexive_witness:
  "length ''a3f0'' = length ''a3f1'' \<and>
   calculateHammingDistance ''a3f0'' ''a3f1'' = calculateHammingDistance ''a3f1'' ''a3f0'' \<and>
   calculateHammingDistance ''a3f0'' ''a3f1'' = Fin (3 / 4) \<and>
   ''a3f0'' \<noteq> [] \<and> calculateHammingDistance ''a3f0'' ''a3f0'' = Fin 1 \<and>
   length ''a3f0'' \<noteq> length ''a3f'' \<and> calculateHammingDistance ''a3f0'' ''a3f'' = Fin 0"
  using similarity_symmetric_reflexive [of "''a3f0''" "''a3f1''" "''a3f0''" "''a3f0''" "''a3f''"]
  by (simp add: calculateHammingDistance_def countMatches.simps)

text \<open>
  Claim C9 as stated includes the empty hash: there the code returns \<^verbatim>\<open>NaN\<close>, not 1.
\<close>

theorem similarity_empty_hash_counterexample:
  "calculateHammingDistance [] [] = NaN \<and> calculateHammingDistance [] [] \<noteq> Fin 1"
  by (simp add: calculateHammingDistance_def)

section \<open>Properties of the scan\<close>

lemma matchLoop_first:
  "find (\<lambda>k. number_ge (calculateHammingDistance h (HashDatabase.hash k)) (95 / 100)) ks = Some k \<Longrightarrow>
   matchLoop h ks =
     \<lparr>matched = True, computedHash = h, matchedHash = Some (HashDatabase.hash k),
      similarity = Some (calculateHammingDistance h (HashDatabase.hash k))\<rparr>"
  by (induction ks) (auto simp: Let_def split: if_splits)

lemma matchLoop_none:
  "find (\<lambda>k. number_ge (calculateHammingDistance h (HashDatabase.hash k)) (95 / 100)) ks = None \<Longrightarrow>
   matchLoop h ks = \<lparr>matched = False, computedHash = h, matchedHash = None, similarity = None\<rparr>"
  by (induction ks) (auto simp: Let_def split: if_splits)

text \<open>
  Claim C7. When some active known hash reaches similarity 0.95 with the computed
  hash \<open>h\<close>, the row reported is the first active row, in the order of the query's answer,
  that reaches it (\<open>find\<close> returns the first element satisfying a test), whether or
  not a later row is closer; the scan result is flagged with confidence 1, method
  \<^verbatim>\<open>hash_match\<close> and no review, and the list of calls to the classifier adapter is empty.
\<close>

theorem hash_match_first_wins:
  assumes "\<exists>k \<in> set db. HashDatabase.active k \<and>
             number_ge (calculateHammingDistance h (HashDatabase.hash k)) (95 / 100)"
  shows "\<exists>k. find (\<lambda>k. number_ge (calculateHammingDistance h (HashDatabase.hash k)) (95 / 100))
                (filter HashDatabase.active db) = Some k \<and>
             scanImage cfg (Inr h) db env =
               (Inr \<lparr>flagged = True, confidence = 1, method = ''hash_match'',
                     requiresReview = False, hash = h,
                     hashMatch = Some \<lparr>matched = True, computedHash = h,
                                       matchedHash = Some (HashDatabase.hash k),
                                       similarity = Some (calculateHammingDistance h (HashDatabase.hash k))\<rparr>,
                     apiDetection = None\<rparr>, [])"
proof -
  let ?P = "\<lambda>k. number_ge (calculateHammingDistance h (HashDatabase.hash k)) (95 / 100)"
  from assms have "\<exists>k \<in> set (filter HashDatabase.active db). ?P k" by auto
  then obtain k where k: "find ?P (filter HashDatabase.active db) = Some k"
    by (cases "find ?P (filter HashDatabase.active db)") (auto simp: find_None_iff)
  have "scanImage cfg (Inr h) db env =
               (Inr \<lparr>flagged = True, confidence = 1, method = ''hash_match'',
                     requiresReview = False, hash = h,
                     hashMatch = Some \<lparr>matched = True, computedHash = h,
                                       matchedHash = Some (HashDatabase.hash k),
                                       similarity = Some (calculateHammingDistance h (HashDatabase.hash k))\<rparr>,
                     apiDetection = None\<rparr>, [])"
    by (simp add: scanImage_def checkHashMatch_def matchLoop_first [OF k])
  with k show ?thesis by blast
qed

text \<open>
  The blocklist of the witness holds an inactive row, then an active row that differs from
  the computed hash in one of 20 characters (similarity 0.95), then an active row equal to
  it (similarity 1): the second row is the one reported.
\<close>

theorem hash_match_first_wins_witness:
  "(\<exists>k \<in> set [\<lparr>HashDatabase.hash = ''0123456789abcdef0123'', severity = ''high'', HashDatabase.active = False\<rparr>,
                \<lparr>HashDatabase.hash = ''0123456789abcdef0124'', severity = ''low'', HashDatabase.active = True\<rparr>,
                \<lparr>HashDatabase.hash = ''0123456789abcdef0123'', severity = ''high'', HashDatabase.active = True\<rparr>].
      HashDatabase.active k \<and> number_ge (calculateHammingDistance ''0123456789abcdef0123'' (HashDatabase.hash k)) (95 / 100)) \<and>
   scanImage \<lparr>workerUrl = Some ''https://w'', workerApiKey = Some ''key'', sightengine = None,
              detectionThreshold = 85 / 100, reviewThreshold = 70 / 100, maxConcurrentScans = 2\<rparr>
     (Inr ''0123456789abcdef0123'')
     [\<lparr>HashDatabase.hash = ''0123456789abcdef0123'', severity = ''high'', HashDatabase.active = False\<rparr>,
      \<lparr>HashDatabase.hash = ''0123456789abcdef0124'', severity = ''low'', HashDatabase.active = True\<rparr>,
      \<lparr>HashDatabase.hash = ''0123456789abcdef0123'', severity = ''high'', HashDatabase.active = True\<rparr>]
     \<lparr>workerAnswer = Returned \<lparr>detected = False, confidence = 0, provider = ''cloudflare-worker'',
                                labels = None, error = None\<rparr>,
      sightengineAnswer = Threw ''unused''\<rparr> =
   (Inr \<lparr>flagged = True, confidence = 1, method = ''hash_match'', requiresReview = False,
         hash = ''0123456789abcdef0123'',
         hashMatch = Some \<lparr>matched = True, computedHash = ''0123456789abcdef0123'',
                           matchedHash = Some ''0123456789abcdef0124'',
                           similarity = Some (Fin (19 / 20))\<rparr>,
         apiDetection = None\<rparr>, [])"
  using hash_match_first_wins
    [of "[\<lparr>HashDatabase.hash = ''0123456789abcdef0123'', severity = ''high'', HashDatabase.active = False\<rparr>,
          \<lparr>HashDatabase.hash = ''0123456789abcdef0124'', severity = ''low'', HashDatabase.active = True\<rparr>,
          \<lparr>HashDatabase.hash = ''0123456789abcdef0123'', severity = ''high'', HashDatabase.active = True\<rparr>]"
        "''0123456789abcdef0123''"
        "\<lparr>workerUrl = Some ''https://w'', workerApiKey = Some ''key'', sightengine = None,
              detectionThreshold = 85 / 100, reviewThreshold = 70 / 100, maxConcurrentScans = 2\<rparr>"
        "\<lparr>workerAnswer = Returned \<lparr>detected = False, confidence = 0, provider = ''cloudflare-worker'',
                                labels = None, error = None\<rparr>,
      sightengineAnswer = Threw ''unused''\<rparr>"]
  by (simp add: calculateHammingDistance_def countMatches.simps)

lemma scanImage_cases:
  assumes "scanImage cfg computed db env = (Inr r, calls)"
  shows "(apiDetection r = None \<and> flagged r \<and> \<not> requiresReview r \<and>
          DetectionResult.confidence r = 1 \<and> method r = ''hash_match'' \<and> calls = []) \<or>
         (\<exists>a cs. detectWithAPI cfg env = (a, cs) \<and> apiDetection r = Some a \<and>
            flagged r = detected a \<and>
            DetectionResult.confidence r = APIDetectionResult.confidence a \<and>
            method r = provider a \<and>
            requiresReview r =
              (reviewThreshold cfg \<le> APIDetectionResult.confidence a \<and>
               APIDetectionResult.confidence a < detectionThreshold cfg) \<and>
            calls = DetectWithAPI # cs)"
  using assms
  by (auto simp: scanImage_def Let_def split: sum.splits if_splits prod.splits)

lemma detectWithAPI_without_worker:
  assumes "\<not> truthy (workerUrl cfg)" and "detectWithAPI cfg env = (a, cs)" and "detected a"
  shows "detectionThreshold cfg < APIDetectionResult.confidence a"
  using assms
  by (auto simp: detectWithAPI_def detectWithSightengine_def Let_def
           split: if_splits outcome.splits)

text \<open>The worker's own \<open>detected\<close> flag compares its score with the literal 0.85.\<close>

lemma detectImage_detected:
  "detected (detectImage fetched) \<longleftrightarrow>
     85 / 100 < APIDetectionResult.confidence (detectImage fetched)"
  by (simp add: detectImage_def Let_def split: outcome.splits)

text \<open>
  With Sightengine as the provider the decision on a confidence \<open>c\<close> is: flagged when
  \<open>c\<close> is strictly above the detection threshold, review when \<open>c\<close> is at or above
  the review threshold and strictly below the detection threshold.
\<close>

lemma sightengine_decision:
  assumes "\<not> truthy (workerUrl cfg)" and "sightengine cfg \<noteq> None"
    and "sightengineAnswer env = Returned d"
    and "scanImage cfg computed db env = (Inr r, calls)" and "apiDetection r \<noteq> None"
  shows "flagged r \<longleftrightarrow> detectionThreshold cfg < DetectionResult.confidence r"
    and "requiresReview r \<longleftrightarrow>
           reviewThreshold cfg \<le> DetectionResult.confidence r \<and>
           DetectionResult.confidence r < detectionThreshold cfg"
  using assms
  by (auto simp: scanImage_def detectWithAPI_def detectWithSightengine_def Let_def
           split: sum.splits if_splits prod.splits)

text \<open>
  Claim C1 says that a confidence equal to the detection threshold is flagged. The code
  at that input: Sightengine answers 0.85 with the thresholds 0.85 and 0.70; the test
  \<^verbatim>\<open>confidence > detectionThreshold\<close> is false and so is
  \<^verbatim>\<open>confidence < detectionThreshold\<close>, and the result is neither flagged nor sent to
  review.
\<close>

theorem decision_at_detection_threshold:
  "scanImage
     \<lparr>workerUrl = None, workerApiKey = None, sightengine = Some (''user'', ''secret''),
      detectionThreshold = 85 / 100, reviewThreshold = 70 / 100, maxConcurrentScans = 2\<rparr>
     (Inr ''00ff'') []
     \<lparr>workerAnswer = Threw ''unused'',
      sightengineAnswer = Returned \<lparr>sexual_activity = Some (85 / 100), sexual_display = None,
                                     offensive_prob = None\<rparr>\<rparr> =
   (Inr \<lparr>flagged = False, confidence = 85 / 100, method = ''sightengine'',
         requiresReview = False, hash = ''00ff'',
         hashMatch = Some \<lparr>matched = False, computedHash = ''00ff'', matchedHash = None,
                           similarity = None\<rparr>,
         apiDetection = Some \<lparr>detected = False, confidence = 85 / 100,
                              provider = ''sightengine'', labels = Some [], error = None\<rparr>\<rparr>,
    [DetectWithAPI, SightengineGet])"
  by (simp add: scanImage_def checkHashMatch_def detectWithAPI_def detectWithSightengine_def
        truthy_def orElse_def Let_def)

text \<open>
  What holds of every scan result: a hash match (no provider answer in the result) is
  flagged and not for review; review is required exactly for a provider answer whose
  confidence lies in the band from the review threshold (inclusive) to the detection
  threshold (exclusive); \<open>flagged\<close> is the provider's own \<open>detected\<close> flag.
\<close>

lemma scan_result_flags:
  assumes "scanImage cfg computed db env = (Inr r, calls)"
  shows "(apiDetection r = None \<longrightarrow> flagged r \<and> \<not> requiresReview r) \<and>
         (requiresReview r \<longleftrightarrow>
            apiDetection r \<noteq> None \<and> reviewThreshold cfg \<le> DetectionResult.confidence r \<and>
            DetectionResult.confidence r < detectionThreshold cfg) \<and>
         (\<forall>a. apiDetection r = Some a \<longrightarrow>
            flagged r = detected a \<and>
            DetectionResult.confidence r = APIDetectionResult.confidence a)"
  using scanImage_cases [OF assms] by auto

text \<open>
  When the worker is not the selected provider, flagged and review exclude each other and
  a flagged provider result has a confidence above the configured detection threshold:
  Sightengine's flag is computed from that threshold.
\<close>

lemma scan_exclusive_without_worker:
  assumes "\<not> truthy (workerUrl cfg)"
    and "scanImage cfg computed db env = (Inr r, calls)"
  shows "\<not> (flagged r \<and> requiresReview r)"
    and "flagged r \<and> apiDetection r \<noteq> None \<longrightarrow>
           detectionThreshold cfg < DetectionResult.confidence r"
  using scanImage_cases [OF assms(2)] detectWithAPI_without_worker [OF assms(1)]
  by fastforce+

text \<open>
  With the worker's answer as \<^verbatim>\<open>detectImage\<close> computes it, flagged and review still
  exclude each other as long as the configured detection threshold is at most the
  worker's literal 0.85.
\<close>

lemma scan_exclusive_worker_low_threshold:
  assumes "workerAnswer env = Returned (detectImage fetched)"
    and "detectionThreshold cfg \<le> 85 / 100"
    and "scanImage cfg computed db env = (Inr r, calls)"
  shows "\<not> (flagged r \<and> requiresReview r)"
proof (cases "truthy (workerUrl cfg)")
  case False
  from scan_exclusive_without_worker(1) [OF False assms(3)] show ?thesis .
next
  case True
  from scanImage_cases [OF assms(3)] show ?thesis
  proof (elim disjE exE conjE)
    fix a cs
    assume a: "detectWithAPI cfg env = (a, cs)" and f: "flagged r = detected a"
      and rr: "requiresReview r =
              (reviewThreshold cfg \<le> APIDetectionResult.confidence a \<and>
               APIDetectionResult.confidence a < detectionThreshold cfg)"
    have "85 / 100 < APIDetectionResult.confidence a" if "detected a"
      using a True that assms(1) detectImage_detected [of fetched]
      by (auto simp: detectWithAPI_def detectWithCloudflareWorker_def split: if_splits)
    with f rr assms(2) show ?thesis by auto
  qed simp
qed


text \<open>
  The same literal in the other direction: with the detection threshold 0.5 and the
  review threshold 0.3, a worker score of 0.6 is neither flagged nor for review.
\<close>

lemma worker_literal_threshold_pass:
  "scanImage
     \<lparr>workerUrl = Some ''https://worker.example'', workerApiKey = Some ''key'',
      sightengine = None, detectionThreshold = 50 / 100, reviewThreshold = 30 / 100,
      maxConcurrentScans = 2\<rparr>
     (Inr ''00ff'') []
     \<lparr>workerAnswer = Returned (detectImage (Returned (Some [\<lparr>label = ''NSFW'', score = 6 / 10\<rparr>]))),
      sightengineAnswer = Threw ''unused''\<rparr> =
   (Inr \<lparr>flagged = False, confidence = 6 / 10, method = ''cloudflare-worker'',
         requiresReview = False, hash = ''00ff'',
         hashMatch = Some \<lparr>matched = False, computedHash = ''00ff'', matchedHash = None,
                           similarity = None\<rparr>,
         apiDetection = Some \<lparr>detected = False, confidence = 6 / 10,
                              provider = ''cloudflare-worker'', labels = Some [''NSFW''],
                              error = None\<rparr>\<rparr>,
    [DetectWithAPI, WorkerPost])"
  by code_simp

text \<open>
  Claim C5, as the code has it. When the selected provider fails (the worker is selected
  and its key is missing or its call throws; Sightengine is selected and its call
  throws; or no provider is configured), the adapter returns \<open>detected = False\<close>,
  confidence 0 and an error message, which is empty only if the thrown error's own
  message is empty. Every scan result built from that answer is not flagged and has
  confidence 0; it requires review exactly when the review threshold is at most 0 and
  the detection threshold is above 0, so never with a positive review threshold.
\<close>

theorem provider_failure_fails_open:
  assumes "if truthy (workerUrl cfg)
           then \<not> truthy (workerApiKey cfg) \<or> threw (workerAnswer env)
           else sightengine cfg \<noteq> None \<longrightarrow> threw (sightengineAnswer env)"
  shows "\<not> detected (fst (detectWithAPI cfg env)) \<and>
         APIDetectionResult.confidence (fst (detectWithAPI cfg env)) = 0 \<and>
         (\<exists>msg. error (fst (detectWithAPI cfg env)) = Some msg \<and>
            (msg = [] \<longrightarrow> workerAnswer env = Threw [] \<or> sightengineAnswer env = Threw [])) \<and>
         (\<forall>r calls. scanImage cfg computed db env = (Inr r, calls) \<and> apiDetection r \<noteq> None \<longrightarrow>
            \<not> flagged r \<and> DetectionResult.confidence r = 0 \<and>
            (requiresReview r \<longleftrightarrow> reviewThreshold cfg \<le> 0 \<and> 0 < detectionThreshold cfg))"
proof -
  obtain a cs where a: "detectWithAPI cfg env = (a, cs)" by (cases "detectWithAPI cfg env")
  from assms a have 1: "\<not> detected a" and 2: "APIDetectionResult.confidence a = 0"
    and 3: "\<exists>msg. error a = Some msg \<and>
            (msg = [] \<longrightarrow> workerAnswer env = Threw [] \<or> sightengineAnswer env = Threw [])"
    by (auto simp: detectWithAPI_def detectWithCloudflareWorker_def detectWithSightengine_def
          threw_def split: if_splits outcome.splits)
  have 4: "\<not> flagged r \<and> DetectionResult.confidence r = 0 \<and>
            (requiresReview r \<longleftrightarrow> reviewThreshold cfg \<le> 0 \<and> 0 < detectionThreshold cfg)"
    if "scanImage cfg computed db env = (Inr r, calls)" and "apiDetection r \<noteq> None" for r calls
    using scanImage_cases [OF that(1)] that(2) a 1 2 by auto
  from a 1 2 3 4 show ?thesis by simp
qed

theorem provider_failure_fails_open_witness:
  "truthy (Some ''https://worker.example'') \<and> threw (Threw ''timeout of 15000ms exceeded'' :: APIDetectionResult outcome) \<and>
   fst (detectWithAPI
     \<lparr>workerUrl = Some ''https://worker.example'', workerApiKey = Some ''key'',
      sightengine = None, detectionThreshold = 85 / 100, reviewThreshold = 70 / 100,
      maxConcurrentScans = 2\<rparr>
     \<lparr>workerAnswer = Threw ''timeout of 15000ms exceeded'',
      sightengineAnswer = Threw ''unused''\<rparr>) =
     \<lparr>detected = False, confidence = 0, provider = ''cloudflare-worker'', labels = None,
      error = Some ''timeout of 15000ms exceeded''\<rparr> \<and>
   scanImage
     \<lparr>workerUrl = Some ''https://worker.example'', workerApiKey = Some ''key'',
      sightengine = None, detectionThreshold = 85 / 100, reviewThreshold = 70 / 100,
      maxConcurrentScans = 2\<rparr>
     (Inr ''00ff'') []
     \<lparr>workerAnswer = Threw ''timeout of 15000ms exceeded'',
      sightengineAnswer = Threw ''unused''\<rparr> =
   (Inr \<lparr>flagged = False, confidence = 0, method = ''cloudflare-worker'',
         requiresReview = False, hash = ''00ff'',
         hashMatch = Some \<lparr>matched = False, computedHash = ''00ff'', matchedHash = None,
                           similarity = None\<rparr>,
         apiDetection = Some \<lparr>detected = False, confidence = 0,
                              provider = ''cloudflare-worker'', labels = None,
                              error = Some ''timeout of 15000ms exceeded''\<rparr>\<rparr>,
    [DetectWithAPI, WorkerPost])"
  using provider_failure_fails_open
    [of "\<lparr>workerUrl = Some ''https://worker.example'', workerApiKey = Some ''key'',
      sightengine = None, detectionThreshold = 85 / 100, reviewThreshold = 70 / 100,
      maxConcurrentScans = 2\<rparr>"
     "\<lparr>workerAnswer = Threw ''timeout of 15000ms exceeded'',
      sightengineAnswer = Threw ''unused''\<rparr>" "Inr ''00ff''" "[]"]
  by (simp add: truthy_def threw_def scanImage_def checkHashMatch_def detectWithAPI_def
        detectWithCloudflareWorker_def)

text \<open>
  Claim C5 as stated fails for a review threshold of 0: the confidence 0 of the failed
  call then lies in the review band.
\<close>

theorem provider_failure_review_counterexample:
  "scanImage
     \<lparr>workerUrl = Some ''https://worker.example'', workerApiKey = Some ''key'',
      sightengine = None, detectionThreshold = 85 / 100, reviewThreshold = 0,
      maxConcurrentScans = 2\<rparr>
     (Inr ''00ff'') []
     \<lparr>workerAnswer = Threw ''timeout of 15000ms exceeded'',
      sightengineAnswer = Threw ''unused''\<rparr> =
   (Inr \<lparr>flagged = False, confidence = 0, method = ''cloudflare-worker'',
         requiresReview = True, hash = ''00ff'',
         hashMatch = Some \<lparr>matched = False, computedHash = ''00ff'', matchedHash = None,
                           similarity = None\<rparr>,
         apiDetection = Some \<lparr>detected = False, confidence = 0,
                              provider = ''cloudflare-worker'', labels = None,
                              error = Some ''timeout of 15000ms exceeded''\<rparr>\<rparr>,
    [DetectWithAPI, WorkerPost])"
  by code_simp

section \<open>Properties of the scan scheduler\<close>

lemma processNext_inv: "queue_inv n s \<Longrightarrow> queue_inv n (processNext n s)"
  by (auto simp: queue_inv_def processNext_def split: list.splits)

lemma fire_inv: "queue_inv n s \<Longrightarrow> fire n e s = Some s' \<Longrightarrow> queue_inv n s'"
proof (cases e)
  case (Add item)
  assume inv: "queue_inv n s" and f: "fire n e s = Some s'"
  from inv have "queue_inv n (s\<lparr>queue := queue s @ [item], submitted := submitted s @ [item]\<rparr>)"
    by (simp add: queue_inv_def)
  from processNext_inv [OF this] f Add show ?thesis by (simp add: fire_def add_def)
next
  case (Settle item)
  assume inv: "queue_inv n s" and f: "fire n e s = Some s'"
  from f Settle have mem: "item \<in> set (scanning s)" and s': "s' = settle n item s"
    by (auto simp: fire_def split: if_splits)
  from mem obtain k where "length (scanning s) = Suc k"
    by (cases "scanning s") auto
  with inv mem have "queue_inv n (s\<lparr>scanning := remove1 item (scanning s), processing := processing s - 1\<rparr>)"
    unfolding queue_inv_def by (simp add: length_remove1)
  from processNext_inv [OF this] s' show ?thesis by (simp add: settle_def)
qed

lemma run_inv: "queue_inv n s \<Longrightarrow> run n es s = Some s' \<Longrightarrow> queue_inv n s'"
  by (induction es arbitrary: s) (auto split: option.splits dest: fire_inv)

lemma fire_admits_oldest:
  "fire n e s = Some s' \<Longrightarrow>
   (admitted s' = admitted s \<and> scanning s' = (case e of Add x \<Rightarrow> scanning s | Settle x \<Rightarrow> remove1 x (scanning s))) \<or>
   (\<exists>item rest. (case e of Add x \<Rightarrow> queue s @ [x] | Settle x \<Rightarrow> queue s) = item # rest \<and>
       queue s' = rest \<and> admitted s' = admitted s @ [item])"
  by (auto simp: fire_def add_def settle_def processNext_def split: event.splits list.splits if_splits)

lemma processNext_submitted: "submitted (processNext n s) = submitted s"
  by (simp add: processNext_def split: list.splits)

lemma fire_submitted:
  "fire n e s = Some s' \<Longrightarrow> submitted s' = submitted s @ submissions [e]"
  by (cases e) (auto simp: fire_def add_def settle_def processNext_submitted split: if_splits)

lemma run_submitted:
  "run n es s = Some s' \<Longrightarrow> submitted s' = submitted s @ submissions es"
proof (induction es arbitrary: s)
  case Nil
  then show ?case by simp
next
  case (Cons e es)
  then obtain s1 where f: "fire n e s = Some s1" and r: "run n es s1 = Some s'"
    by (auto split: option.splits)
  from Cons.IH [OF r] fire_submitted [OF f] show ?case
    by (cases e) simp_all
qed

text \<open>
  Claim C8. In every state the scheduler reaches from the empty queue, by any sequence
  of submissions and settlings and for every bound \<open>n\<close>: the counter \<^verbatim>\<open>processing\<close> is
  the number of running scans and is at most \<open>n\<close>; the items admitted so far, followed
  by the items still queued, are the submitted items in the order of submission; and
  whatever event comes next either admits nothing or admits the item at the head of the
  queue, the oldest one.
\<close>

theorem scheduler_bound_and_fifo:
  assumes "run n es emptyQueue = Some s"
  shows "processing s = int (length (scanning s)) \<and> processing s \<le> int n \<and>
         admitted s @ queue s = submitted s \<and> submitted s = submissions es \<and>
         (\<forall>e s'. fire n e s = Some s' \<longrightarrow>
            admitted s' = admitted s \<or>
            (\<exists>item rest.
               (case e of Add x \<Rightarrow> queue s @ [x] | Settle x \<Rightarrow> queue s) = item # rest \<and>
               queue s' = rest \<and> admitted s' = admitted s @ [item]))"
proof -
  have "queue_inv n (emptyQueue :: 'a DetectionQueue)"
    by (simp add: queue_inv_def emptyQueue_def)
  from run_inv [OF this assms]
  have inv: "processing s = int (length (scanning s))" "length (scanning s) \<le> n"
    "admitted s @ queue s = submitted s"
    by (simp_all add: queue_inv_def)
  from run_submitted [OF assms] have sub: "submitted s = submissions es"
    by (simp add: emptyQueue_def)
  have step: "admitted s' = admitted s \<or>
            (\<exists>item rest.
               (case e of Add x \<Rightarrow> queue s @ [x] | Settle x \<Rightarrow> queue s) = item # rest \<and>
               queue s' = rest \<and> admitted s' = admitted s @ [item])"
    if "fire n e s = Some s'" for e s'
    using fire_admits_oldest [OF that] by blast
  from inv sub step show ?thesis by simp
qed

text \<open>
  The witness submits five requests with the bound 2; the second scan settles before
  the first.
\<close>

theorem scheduler_bound_and_fifo_witness:
  "run 2 [Add (1::nat), Add 2, Add 3, Settle 2, Add 4, Add 5] emptyQueue =
     Some \<lparr>queue = [4, 5], processing = 2, scanning = [1, 3], admitted = [1, 2, 3],
           submitted = [1, 2, 3, 4, 5]\<rparr> \<and>
   fire 2 (Settle 1)
     \<lparr>queue = [4, 5], processing = 2, scanning = [1, 3], admitted = [1, 2, 3],
      submitted = [1, 2, 3, 4, 5]\<rparr> =
     Some \<lparr>queue = [5], processing = 2, scanning = [3, 4], admitted = [1, 2, 3, 4],
           submitted = [1, 2, 3, 4, 5]\<rparr> \<and>
   submissions [Add (1::nat), Add 2, Add 3, Settle 2, Add 4, Add 5] = [1, 2, 3, 4, 5]"
proof -
  have r: "run 2 [Add (1::nat), Add 2, Add 3, Settle 2, Add 4, Add 5] emptyQueue =
     Some \<lparr>queue = [4, 5], processing = 2, scanning = [1, 3], admitted = [1, 2, 3],
           submitted = [1, 2, 3, 4, 5]\<rparr>"
    by (simp add: fire_def add_def settle_def processNext_def emptyQueue_def)
  from scheduler_bound_and_fifo [OF r] r show ?thesis
    by (simp add: fire_def settle_def processNext_def)
qed

section \<open>Properties of the escalation\<close>

lemma banInGuilds_world:
  "fst (banInGuilds client uid gs (w, n)) = w\<lparr>effects := effects w @ map (\<lambda>g. BanMember g uid) gs\<rparr>"
  by (induction gs arbitrary: w n) (auto simp: Let_def split: option.splits)

lemma banInGuilds_count:
  "snd (banInGuilds client uid gs (w, n)) = n + length (filter (\<lambda>g. banError client g = None) gs)"
  by (induction gs arbitrary: w n) (auto simp: Let_def split: option.splits)

lemma updatePendingTimeouts_idem:
  "newType \<noteq> ''pending_review'' \<Longrightarrow>
   updatePendingTimeouts uid newType a (updatePendingTimeouts uid newType a ts) =
   updatePendingTimeouts uid newType a ts"
  by (induction ts) (auto simp: updatePendingTimeouts_def)

text \<open>
  Claim C3, as the code has it. \<^verbatim>\<open>handleUserOffense\<close> increments the user's
  \<^verbatim>\<open>offenseCount\<close> by one (a user without a row starts at 0) and never creates a
  moderator review item. When the count becomes 1 and the ban in the originating guild
  succeeds (the guild is in the client's cache and the ban call does not throw), exactly
  one ban row is added, with level 1, type \<^verbatim>\<open>server\<close> and \<open>active = True\<close>, for
  that guild; when that ban fails no row is added and the result reports the failure.
  When the count becomes anything else, exactly one row with level 2, type
  \<^verbatim>\<open>global_pending\<close> and \<open>active = False\<close> is added, no call is made to the chat
  platform, and the result asks for moderator review.
\<close>

theorem offense_escalation:
  assumes "handleUserOffense client uid gid why w = (res, w')"
  shows "moderatorReviews w' = moderatorReviews w \<and>
         (\<exists>u'. users w' = (users w)(uid \<mapsto> u') \<and>
            offenseCount u' = (case users w uid of None \<Rightarrow> 1 | Some u \<Rightarrow> offenseCount u + 1) \<and>
            (offenseCount u' = 1 \<and> gid \<in> set (guildsCache client) \<and> banError client gid = None \<longrightarrow>
               bans w' = bans w @ [\<lparr>userId = uid, guildId = gid, level = 1, reason = why,
                                    banType = ''server'', active = True\<rparr>] \<and>
               effects w' = effects w @ [BanMember gid uid] \<and>
               success res \<and> resultLevel res = 1 \<and> \<not> requiresModeratorReview res) \<and>
            (offenseCount u' = 1 \<and> (gid \<notin> set (guildsCache client) \<or> banError client gid \<noteq> None) \<longrightarrow>
               bans w' = bans w \<and> \<not> success res) \<and>
            (offenseCount u' \<noteq> 1 \<longrightarrow>
               bans w' = bans w @ [\<lparr>userId = uid, guildId = gid, level = 2, reason = why,
                                    banType = ''global_pending'', active = False\<rparr>] \<and>
               effects w' = effects w \<and>
               success res \<and> resultLevel res = 2 \<and> requiresModeratorReview res))"
  using assms
  by (auto simp: handleUserOffense_def executeServerBan_def queueForGlobalBan_def Let_def
           split: option.splits if_splits)

text \<open>Scenario A: the first offense of an unknown user, in a guild where the ban succeeds.\<close>

theorem offense_escalation_witness:
  "handleUserOffense
     \<lparr>guildsCache = [''g1'', ''g2''], banError = (\<lambda>g. None), deleteThrows = False,
      reactThrows = False, modChannel = False, sendThrows = False\<rparr>
     ''u1'' ''g1'' ''first''
     \<lparr>users = Map.empty, bans = [], timeouts = [], detections = [], moderatorReviews = [],
      effects = []\<rparr> =
   (\<lparr>success = True, resultLevel = 1, requiresModeratorReview = False,
     message = ''User banned from server (first offense)''\<rparr>,
    \<lparr>users = [''u1'' \<mapsto> \<lparr>offenseCount = 1, globallyBanned = False\<rparr>],
     bans = [\<lparr>userId = ''u1'', guildId = ''g1'', level = 1, reason = ''first'',
              banType = ''server'', active = True\<rparr>],
     timeouts = [], detections = [], moderatorReviews = [],
     effects = [BanMember ''g1'' ''u1'']\<rparr>) \<and>
   ''g1'' \<in> set [''g1'', ''g2'']"
proof -
  have run: "handleUserOffense
     \<lparr>guildsCache = [''g1'', ''g2''], banError = (\<lambda>g. None), deleteThrows = False,
      reactThrows = False, modChannel = False, sendThrows = False\<rparr>
     ''u1'' ''g1'' ''first''
     \<lparr>users = Map.empty, bans = [], timeouts = [], detections = [], moderatorReviews = [],
      effects = []\<rparr> =
   (\<lparr>success = True, resultLevel = 1, requiresModeratorReview = False,
     message = ''User banned from server (first offense)''\<rparr>,
    \<lparr>users = [''u1'' \<mapsto> \<lparr>offenseCount = 1, globallyBanned = False\<rparr>],
     bans = [\<lparr>userId = ''u1'', guildId = ''g1'', level = 1, reason = ''first'',
              banType = ''server'', active = True\<rparr>],
     timeouts = [], detections = [], moderatorReviews = [],
     effects = [BanMember ''g1'' ''u1'']\<rparr>)"
    by (simp add: handleUserOffense_def executeServerBan_def)
  from offense_escalation [OF run] run show ?thesis by simp
qed

text \<open>
  Claim C3 as stated has a pending moderator review item created by the second offense.
  Scenario B on the code: the table of review items is as empty after the call as
  before; the pending ban row is the only record of the review.
\<close>

theorem second_offense_no_review_item_counterexample:
  "handleUserOffense
     \<lparr>guildsCache = [''g1'', ''g2''], banError = (\<lambda>g. None), deleteThrows = False,
      reactThrows = False, modChannel = False, sendThrows = False\<rparr>
     ''u1'' ''g2'' ''second''
     \<lparr>users = [''u1'' \<mapsto> \<lparr>offenseCount = 1, globallyBanned = False\<rparr>],
      bans = [\<lparr>userId = ''u1'', guildId = ''g1'', level = 1, reason = ''first'',
               banType = ''server'', active = True\<rparr>],
      timeouts = [], detections = [], moderatorReviews = [],
      effects = [BanMember ''g1'' ''u1'']\<rparr> =
   (\<lparr>success = True, resultLevel = 2, requiresModeratorReview = True,
     message = ''User queued for global ban (requires moderator approval)''\<rparr>,
    \<lparr>users = [''u1'' \<mapsto> \<lparr>offenseCount = 2, globallyBanned = False\<rparr>],
     bans = [\<lparr>userId = ''u1'', guildId = ''g1'', level = 1, reason = ''first'',
              banType = ''server'', active = True\<rparr>,
             \<lparr>userId = ''u1'', guildId = ''g2'', level = 2, reason = ''second'',
              banType = ''global_pending'', active = False\<rparr>],
     timeouts = [], detections = [], moderatorReviews = [],
     effects = [BanMember ''g1'' ''u1'']\<rparr>)"
  by (simp add: handleUserOffense_def queueForGlobalBan_def)

text \<open>
  Claim C4, as the code has it. Ban manager: approving a ban row that is pending, for a user who has a row,
  returns \<open>True\<close>, sets the row to type \<^verbatim>\<open>global\<close> (the approved kind) with
  \<open>active = True\<close>, sets the user's \<^verbatim>\<open>globallyBanned\<close>, and then calls the ban in
  every guild of the client's cache, in order. This holds for every \<open>banError\<close>, that
  is, whichever of the guilds' ban calls throw. Timeout manager: approving a user who has
  a row sets \<^verbatim>\<open>globallyBanned\<close>, sets every pending timeout row of the user to
  \<^verbatim>\<open>global_approved\<close> with \<open>active = True\<close>, and calls the ban in every guild in
  the same way; it then posts to the moderation channel when one is configured, and
  returns \<open>True\<close> unless that closing post throws.
\<close>

theorem approval_fans_out:
  "(banId < length (bans w) \<and> banType (bans w ! banId) = ''global_pending'' \<and>
    users w (Ban.userId (bans w ! banId)) = Some u \<longrightarrow>
      approveGlobalBan client banId moderatorId w =
        (True, w\<lparr>bans := (bans w)[banId := (bans w ! banId)\<lparr>banType := ''global'', active := True\<rparr>],
                 users := (users w)(Ban.userId (bans w ! banId) \<mapsto> u\<lparr>globallyBanned := True\<rparr>),
                 effects := effects w @
                   map (\<lambda>g. BanMember g (Ban.userId (bans w ! banId))) (guildsCache client)\<rparr>)) \<and>
   (users w uid = Some v \<longrightarrow>
      timeoutManager_approveGlobalBan client uid moderatorId w =
        (\<not> (modChannel client \<and> sendThrows client),
         w\<lparr>users := (users w)(uid \<mapsto> v\<lparr>globallyBanned := True\<rparr>),
           timeouts := updatePendingTimeouts uid ''global_approved'' True (timeouts w),
           effects := effects w @ map (\<lambda>g. BanMember g uid) (guildsCache client) @
             (if modChannel client then [ModChannelSend ''Global Ban Approved''] else [])\<rparr>))"
  by (auto simp: approveGlobalBan_def timeoutManager_approveGlobalBan_def notifyModChannel_def
        banInGuilds_world Let_def)

text \<open>
  In the witness the ban call throws in the second of three guilds; the third guild is
  still called and both approvals return \<open>True\<close>.
\<close>

theorem approval_fans_out_witness:
  "approveGlobalBan
     \<lparr>guildsCache = [''g1'', ''g2'', ''g3''],
      banError = (\<lambda>g. if g = ''g2'' then Some ''Missing Permissions'' else None),
      deleteThrows = False, reactThrows = False, modChannel = False, sendThrows = False\<rparr>
     1 ''mod''
     \<lparr>users = [''u1'' \<mapsto> \<lparr>offenseCount = 2, globallyBanned = False\<rparr>],
      bans = [\<lparr>userId = ''u1'', guildId = ''g1'', level = 1, reason = ''first'',
               banType = ''server'', active = True\<rparr>,
              \<lparr>userId = ''u1'', guildId = ''g2'', level = 2, reason = ''second'',
               banType = ''global_pending'', active = False\<rparr>],
      timeouts = [], detections = [], moderatorReviews = [], effects = []\<rparr> =
   (True,
    \<lparr>users = [''u1'' \<mapsto> \<lparr>offenseCount = 2, globallyBanned = True\<rparr>],
     bans = [\<lparr>userId = ''u1'', guildId = ''g1'', level = 1, reason = ''first'',
              banType = ''server'', active = True\<rparr>,
             \<lparr>userId = ''u1'', guildId = ''g2'', level = 2, reason = ''second'',
              banType = ''global'', active = True\<rparr>],
     timeouts = [], detections = [], moderatorReviews = [],
     effects = [BanMember ''g1'' ''u1'', BanMember ''g2'' ''u1'', BanMember ''g3'' ''u1'']\<rparr>) \<and>
   timeoutManager_approveGlobalBan
     \<lparr>guildsCache = [''g1'', ''g2'', ''g3''],
      banError = (\<lambda>g. if g = ''g2'' then Some ''Missing Permissions'' else None),
      deleteThrows = False, reactThrows = False, modChannel = True, sendThrows = False\<rparr>
     ''u1'' ''mod''
     \<lparr>users = [''u1'' \<mapsto> \<lparr>offenseCount = 2, globallyBanned = False\<rparr>],
      bans = [],
      timeouts = [\<lparr>Timeout.userId = ''u1'', guildId = ''g2'', level = 2, reason = ''second'',
                   timeoutType = ''pending_review'', active = False\<rparr>],
      detections = [], moderatorReviews = [], effects = []\<rparr> =
   (True,
    \<lparr>users = [''u1'' \<mapsto> \<lparr>offenseCount = 2, globallyBanned = True\<rparr>],
     bans = [],
     timeouts = [\<lparr>Timeout.userId = ''u1'', guildId = ''g2'', level = 2, reason = ''second'',
                  timeoutType = ''global_approved'', active = True\<rparr>],
     detections = [], moderatorReviews = [],
     effects = [BanMember ''g1'' ''u1'', BanMember ''g2'' ''u1'', BanMember ''g3'' ''u1'',
                ModChannelSend ''Global Ban Approved'']\<rparr>)"
  using approval_fans_out
    [of 1 "\<lparr>users = [''u1'' \<mapsto> \<lparr>offenseCount = 2, globallyBanned = False\<rparr>],
      bans = [\<lparr>userId = ''u1'', guildId = ''g1'', level = 1, reason = ''first'',
               banType = ''server'', active = True\<rparr>,
              \<lparr>userId = ''u1'', guildId = ''g2'', level = 2, reason = ''second'',
               banType = ''global_pending'', active = False\<rparr>],
      timeouts = [], detections = [], moderatorReviews = [], effects = []\<rparr>"
      "\<lparr>offenseCount = 2, globallyBanned = False\<rparr>"
      "\<lparr>guildsCache = [''g1'', ''g2'', ''g3''],
      banError = (\<lambda>g. if g = ''g2'' then Some ''Missing Permissions'' else None),
      deleteThrows = False, reactThrows = False, modChannel = False, sendThrows = False\<rparr>"
      "''mod''" "''u1''" "\<lparr>offenseCount = 2, globallyBanned = False\<rparr>"]
  by (simp add: timeoutManager_approveGlobalBan_def notifyModChannel_def
        updatePendingTimeouts_def banInGuilds_world)

text \<open>
  Claim C4 as stated has the approval report success whenever the state transition
  succeeded. In the timeout manager the closing post to the moderation channel is inside
  the function's \<^verbatim>\<open>try\<close>: when it throws, the user is globally banned, the pending
  row is approved and every guild has been called, and the function returns \<open>False\<close>.
\<close>

theorem approval_reports_failure_counterexample:
  "timeoutManager_approveGlobalBan
     \<lparr>guildsCache = [''g1'', ''g2''], banError = (\<lambda>g. None),
      deleteThrows = False, reactThrows = False, modChannel = True, sendThrows = True\<rparr>
     ''u1'' ''mod''
     \<lparr>users = [''u1'' \<mapsto> \<lparr>offenseCount = 2, globallyBanned = False\<rparr>],
      bans = [],
      timeouts = [\<lparr>Timeout.userId = ''u1'', guildId = ''g2'', level = 2, reason = ''second'',
                   timeoutType = ''pending_review'', active = False\<rparr>],
      detections = [], moderatorReviews = [], effects = []\<rparr> =
   (False,
    \<lparr>users = [''u1'' \<mapsto> \<lparr>offenseCount = 2, globallyBanned = True\<rparr>],
     bans = [],
     timeouts = [\<lparr>Timeout.userId = ''u1'', guildId = ''g2'', level = 2, reason = ''second'',
                  timeoutType = ''global_approved'', active = True\<rparr>],
     detections = [], moderatorReviews = [],
     effects = [BanMember ''g1'' ''u1'', BanMember ''g2'' ''u1'',
                ModChannelSend ''Global Ban Approved'']\<rparr>)"
  by (simp add: timeoutManager_approveGlobalBan_def notifyModChannel_def
        updatePendingTimeouts_def banInGuilds_world)

text \<open>
  Claim C6. Ban manager: rejecting an existing ban row returns \<open>True\<close>, sets the row
  to type \<^verbatim>\<open>global_rejected\<close> with \<open>active = False\<close>, and leaves the users (so every
  \<^verbatim>\<open>offenseCount\<close>), the timeouts and the calls to the chat platform as they were; a
  second rejection returns the same result and the same state. Timeout manager: rejecting
  sets every pending timeout row of the user to \<^verbatim>\<open>global_rejected\<close> with
  \<open>active = False\<close>, leaves users and bans as they were and calls nothing but the
  post to the moderation channel; a second rejection leaves users, bans and timeouts as
  the first one left them and returns the same result.
\<close>

theorem rejection_idempotent:
  "(rejectGlobalBan banId moderatorId modNotes w = (r, w') \<longrightarrow>
      users w' = users w \<and> effects w' = effects w \<and> timeouts w' = timeouts w \<and>
      r = (banId < length (bans w)) \<and>
      bans w' = (bans w)[banId := (bans w ! banId)\<lparr>banType := ''global_rejected'', active := False\<rparr>] \<and>
      rejectGlobalBan banId moderatorId modNotes w' = (r, w')) \<and>
   (timeoutManager_rejectGlobalBan client uid moderatorId modNotes w = (r2, w2) \<and>
    timeoutManager_rejectGlobalBan client uid moderatorId modNotes w2 = (r3, w3) \<longrightarrow>
      users w2 = users w \<and> bans w2 = bans w \<and>
      timeouts w2 = updatePendingTimeouts uid ''global_rejected'' False (timeouts w) \<and>
      effects w2 = effects w @ (if modChannel client then [ModChannelSend ''Global Ban Rejected''] else []) \<and>
      r2 = (\<not> (modChannel client \<and> sendThrows client)) \<and>
      users w3 = users w2 \<and> bans w3 = bans w2 \<and> timeouts w3 = timeouts w2 \<and> r3 = r2)"
proof (rule conjI; rule impI)
  assume "rejectGlobalBan banId moderatorId modNotes w = (r, w')"
  then show "users w' = users w \<and> effects w' = effects w \<and> timeouts w' = timeouts w \<and>
      r = (banId < length (bans w)) \<and>
      bans w' = (bans w)[banId := (bans w ! banId)\<lparr>banType := ''global_rejected'', active := False\<rparr>] \<and>
      rejectGlobalBan banId moderatorId modNotes w' = (r, w')"
    by (auto simp: rejectGlobalBan_def list_update_beyond split: if_splits)
next
  assume "timeoutManager_rejectGlobalBan client uid moderatorId modNotes w = (r2, w2) \<and>
    timeoutManager_rejectGlobalBan client uid moderatorId modNotes w2 = (r3, w3)"
  then show "users w2 = users w \<and> bans w2 = bans w \<and>
      timeouts w2 = updatePendingTimeouts uid ''global_rejected'' False (timeouts w) \<and>
      effects w2 = effects w @ (if modChannel client then [ModChannelSend ''Global Ban Rejected''] else []) \<and>
      r2 = (\<not> (modChannel client \<and> sendThrows client)) \<and>
      users w3 = users w2 \<and> bans w3 = bans w2 \<and> timeouts w3 = timeouts w2 \<and> r3 = r2"
    by (auto simp: timeoutManager_rejectGlobalBan_def notifyModChannel_def Let_def
          updatePendingTimeouts_idem split: if_splits)
qed

theorem rejection_idempotent_witness:
  "rejectGlobalBan 0 ''mod'' ''false positive''
     \<lparr>users = [''u1'' \<mapsto> \<lparr>offenseCount = 2, globallyBanned = False\<rparr>],
      bans = [\<lparr>userId = ''u1'', guildId = ''g2'', level = 2, reason = ''second'',
               banType = ''global_pending'', active = False\<rparr>],
      timeouts = [\<lparr>Timeout.userId = ''u1'', guildId = ''g2'', level = 2, reason = ''second'',
                   timeoutType = ''pending_review'', active = False\<rparr>],
      detections = [], moderatorReviews = [], effects = []\<rparr> =
   (True,
    \<lparr>users = [''u1'' \<mapsto> \<lparr>offenseCount = 2, globallyBanned = False\<rparr>],
     bans = [\<lparr>userId = ''u1'', guildId = ''g2'', level = 2, reason = ''second'',
              banType = ''global_rejected'', active = False\<rparr>],
     timeouts = [\<lparr>Timeout.userId = ''u1'', guildId = ''g2'', level = 2, reason = ''second'',
                  timeoutType = ''pending_review'', active = False\<rparr>],
     detections = [], moderatorReviews = [], effects = []\<rparr>) \<and>
   rejectGlobalBan 0 ''mod'' ''false positive''
     \<lparr>users = [''u1'' \<mapsto> \<lparr>offenseCount = 2, globallyBanned = False\<rparr>],
      bans = [\<lparr>userId = ''u1'', guildId = ''g2'', level = 2, reason = ''second'',
               banType = ''global_rejected'', active = False\<rparr>],
      timeouts = [\<lparr>Timeout.userId = ''u1'', guildId = ''g2'', level = 2, reason = ''second'',
                   timeoutType = ''pending_review'', active = False\<rparr>],
      detections = [], moderatorReviews = [], effects = []\<rparr> =
   (True,
    \<lparr>users = [''u1'' \<mapsto> \<lparr>offenseCount = 2, globallyBanned = False\<rparr>],
     bans = [\<lparr>userId = ''u1'', guildId = ''g2'', level = 2, reason = ''second'',
              banType = ''global_rejected'', active = False\<rparr>],
     timeouts = [\<lparr>Timeout.userId = ''u1'', guildId = ''g2'', level = 2, reason = ''second'',
                  timeoutType = ''pending_review'', active = False\<rparr>],
     detections = [], moderatorReviews = [], effects = []\<rparr>) \<and>
   timeoutManager_rejectGlobalBan
     \<lparr>guildsCache = [''g1'', ''g2''], banError = (\<lambda>g. None), deleteThrows = False,
      reactThrows = False, modChannel = False, sendThrows = False\<rparr>
     ''u1'' ''mod'' ''false positive''
     \<lparr>users = [''u1'' \<mapsto> \<lparr>offenseCount = 2, globallyBanned = False\<rparr>],
      bans = [\<lparr>userId = ''u1'', guildId = ''g2'', level = 2, reason = ''second'',
               banType = ''global_pending'', active = False\<rparr>],
      timeouts = [\<lparr>Timeout.userId = ''u1'', guildId = ''g2'', level = 2, reason = ''second'',
                   timeoutType = ''pending_review'', active = False\<rparr>],
      detections = [], moderatorReviews = [], effects = []\<rparr> =
   (True,
    \<lparr>users = [''u1'' \<mapsto> \<lparr>offenseCount = 2, globallyBanned = False\<rparr>],
     bans = [\<lparr>userId = ''u1'', guildId = ''g2'', level = 2, reason = ''second'',
              banType = ''global_pending'', active = False\<rparr>],
     timeouts = [\<lparr>Timeout.userId = ''u1'', guildId = ''g2'', level = 2, reason = ''second'',
                  timeoutType = ''global_rejected'', active = False\<rparr>],
     detections = [], moderatorReviews = [], effects = []\<rparr>) \<and>
   timeoutManager_rejectGlobalBan
     \<lparr>guildsCache = [''g1'', ''g2''], banError = (\<lambda>g. None), deleteThrows = False,
      reactThrows = False, modChannel = False, sendThrows = False\<rparr>
     ''u1'' ''mod'' ''false positive''
     \<lparr>users = [''u1'' \<mapsto> \<lparr>offenseCount = 2, globallyBanned = False\<rparr>],
      bans = [\<lparr>userId = ''u1'', guildId = ''g2'', level = 2, reason = ''second'',
               banType = ''global_pending'', active = False\<rparr>],
      timeouts = [\<lparr>Timeout.userId = ''u1'', guildId = ''g2'', level = 2, reason = ''second'',
                   timeoutType = ''global_rejected'', active = False\<rparr>],
      detections = [], moderatorReviews = [], effects = []\<rparr> =
   (True,
    \<lparr>users = [''u1'' \<mapsto> \<lparr>offenseCount = 2, globallyBanned = False\<rparr>],
     bans = [\<lparr>userId = ''u1'', guildId = ''g2'', level = 2, reason = ''second'',
              banType = ''global_pending'', active = False\<rparr>],
     timeouts = [\<lparr>Timeout.userId = ''u1'', guildId = ''g2'', level = 2, reason = ''second'',
                  timeoutType = ''global_rejected'', active = False\<rparr>],
     detections = [], moderatorReviews = [], effects = []\<rparr>)"
proof -
  let ?w = "\<lparr>users = [''u1'' \<mapsto> \<lparr>offenseCount = 2, globallyBanned = False\<rparr>],
      bans = [\<lparr>userId = ''u1'', guildId = ''g2'', level = 2, reason = ''second'',
               banType = ''global_pending'', active = False\<rparr>],
      timeouts = [\<lparr>Timeout.userId = ''u1'', guildId = ''g2'', level = 2, reason = ''second'',
                   timeoutType = ''pending_review'', active = False\<rparr>],
      detections = [], moderatorReviews = [], effects = []\<rparr>"
  let ?w' = "\<lparr>users = [''u1'' \<mapsto> \<lparr>offenseCount = 2, globallyBanned = False\<rparr>],
     bans = [\<lparr>userId = ''u1'', guildId = ''g2'', level = 2, reason = ''second'',
              banType = ''global_rejected'', active = False\<rparr>],
     timeouts = [\<lparr>Timeout.userId = ''u1'', guildId = ''g2'', level = 2, reason = ''second'',
                  timeoutType = ''pending_review'', active = False\<rparr>],
     detections = [], moderatorReviews = [], effects = []\<rparr>"
  let ?client = "\<lparr>guildsCache = [''g1'', ''g2''], banError = (\<lambda>g. None), deleteThrows = False,
      reactThrows = False, modChannel = False, sendThrows = False\<rparr>"
  let ?t' = "\<lparr>users = [''u1'' \<mapsto> \<lparr>offenseCount = 2, globallyBanned = False\<rparr>],
     bans = [\<lparr>userId = ''u1'', guildId = ''g2'', level = 2, reason = ''second'',
              banType = ''global_pending'', active = False\<rparr>],
     timeouts = [\<lparr>Timeout.userId = ''u1'', guildId = ''g2'', level = 2, reason = ''second'',
                  timeoutType = ''global_rejected'', active = False\<rparr>],
     detections = [], moderatorReviews = [], effects = []\<rparr>"
  have 1: "rejectGlobalBan 0 ''mod'' ''false positive'' ?w = (True, ?w')"
    by (simp add: rejectGlobalBan_def)
  have 2: "timeoutManager_rejectGlobalBan ?client ''u1'' ''mod'' ''false positive'' ?w = (True, ?t')"
    by (simp add: timeoutManager_rejectGlobalBan_def notifyModChannel_def updatePendingTimeouts_def)
  have 3: "timeoutManager_rejectGlobalBan ?client ''u1'' ''mod'' ''false positive'' ?t' = (True, ?t')"
    by (simp add: timeoutManager_rejectGlobalBan_def notifyModChannel_def updatePendingTimeouts_def)
  from rejection_idempotent
    [where banId = 0 and moderatorId = "''mod''" and modNotes = "''false positive''" and w = ?w
       and r = True and w' = ?w' and client = ?client and uid = "''u1''" and ?r2.0 = True
       and ?w2.0 = ?t' and ?r3.0 = True and ?w3.0 = ?t'] 1 2 3
  show ?thesis by simp
qed

section \<open>Properties of the message handler\<close>

lemma findLatestDetection_appended:
  "messageId r = mid \<Longrightarrow> findLatestDetection mid (ds @ [r]) = Some (length ds)"
  by (simp add: findLatestDetection_def)

text \<open>
  Claim C10, as the code has it. For a scanned image whose detection result requires review, whatever its
  \<open>flagged\<close> field: the handler only reacts to the message and, when that reaction
  does not throw, adds a review item with status \<^verbatim>\<open>pending\<close> for the detection row it
  has just created and calls \<^verbatim>\<open>notifyModeratorOfPendingReview\<close>; the users (their
  offense counts), the bans and the timeouts are as before, and neither a deletion nor a
  ban is among the calls, so the escalation routine has not run. A result that is neither
  for review nor flagged causes no call and no change besides the detection row. Only a
  result that is flagged and not for review reaches \<^verbatim>\<open>handleFlaggedContent\<close>, the one
  place that deletes the message and calls the escalation routine.
\<close>

theorem review_path_precedence:
  "(requiresReview d \<longrightarrow>
      users (processImageAttachment client msg url cfg (Inr d) w) = users w \<and>
      bans (processImageAttachment client msg url cfg (Inr d) w) = bans w \<and>
      timeouts (processImageAttachment client msg url cfg (Inr d) w) = timeouts w \<and>
      (if reactThrows client
       then effects (processImageAttachment client msg url cfg (Inr d) w) =
              effects w @ [React (msgId msg)] \<and>
            moderatorReviews (processImageAttachment client msg url cfg (Inr d) w) =
              moderatorReviews w
       else effects (processImageAttachment client msg url cfg (Inr d) w) =
              effects w @ [React (msgId msg),
                           NotifyModeratorOfPendingReview (msgGuildId msg) (length (detections w))
                             (authorId msg)] \<and>
            moderatorReviews (processImageAttachment client msg url cfg (Inr d) w) =
              moderatorReviews w @ [\<lparr>detectionId = length (detections w), status = ''pending''\<rparr>])) \<and>
   (\<not> requiresReview d \<and> \<not> flagged d \<longrightarrow>
      users (processImageAttachment client msg url cfg (Inr d) w) = users w \<and>
      bans (processImageAttachment client msg url cfg (Inr d) w) = bans w \<and>
      timeouts (processImageAttachment client msg url cfg (Inr d) w) = timeouts w \<and>
      moderatorReviews (processImageAttachment client msg url cfg (Inr d) w) = moderatorReviews w \<and>
      effects (processImageAttachment client msg url cfg (Inr d) w) = effects w) \<and>
   (flagged d \<and> \<not> requiresReview d \<longrightarrow>
      processImageAttachment client msg url cfg (Inr d) w =
        handleFlaggedContent client msg d cfg
          (w\<lparr>detections := detections w @
               [\<lparr>Detection.userId = authorId msg, Detection.guildId = msgGuildId msg,
                 channelId = msgChannelId msg, messageId = msgId msg, imageUrl = url,
                 imageHash = hash d, detectionMethod = method d,
                 confidenceScore = DetectionResult.confidence d, Detection.flagged = True,
                 actionTaken = ''pending''\<rparr>]\<rparr>))"
  by (auto simp: processImageAttachment_def handleReviewRequired_def Let_def
        findLatestDetection_appended)

text \<open>
  The detection result of the witness is both flagged and for review; the guild has
  automatic deletion and banning switched on.
\<close>

theorem review_path_precedence_witness:
  "processImageAttachment
     \<lparr>guildsCache = [''g1''], banError = (\<lambda>g. None), deleteThrows = False,
      reactThrows = False, modChannel = False, sendThrows = False\<rparr>
     \<lparr>msgId = ''m1'', authorId = ''u1'', msgGuildId = ''g1'', msgChannelId = ''c1''\<rparr>
     ''https://cdn.example/a.png''
     \<lparr>detectionEnabled = True, autoDelete = True, autoBan = True\<rparr>
     (Inr \<lparr>flagged = True, confidence = 9 / 10, method = ''cloudflare-worker'',
         requiresReview = True, hash = ''00ff'',
         hashMatch = Some \<lparr>matched = False, computedHash = ''00ff'', matchedHash = None,
                           similarity = None\<rparr>,
         apiDetection = Some \<lparr>detected = True, confidence = 9 / 10,
                              provider = ''cloudflare-worker'', labels = Some [''NSFW''],
                              error = None\<rparr>\<rparr>)
     \<lparr>users = Map.empty, bans = [], timeouts = [], detections = [], moderatorReviews = [],
      effects = []\<rparr> =
   \<lparr>users = Map.empty, bans = [], timeouts = [],
    detections = [\<lparr>Detection.userId = ''u1'', Detection.guildId = ''g1'', channelId = ''c1'',
                   messageId = ''m1'', imageUrl = ''https://cdn.example/a.png'',
                   imageHash = ''00ff'', detectionMethod = ''cloudflare-worker'',
                   confidenceScore = 9 / 10, Detection.flagged = True,
                   actionTaken = ''pending''\<rparr>],
    moderatorReviews = [\<lparr>detectionId = 0, status = ''pending''\<rparr>],
    effects = [React ''m1'', NotifyModeratorOfPendingReview ''g1'' 0 ''u1'']\<rparr>"
  using review_path_precedence
    [of "\<lparr>flagged = True, confidence = 9 / 10, method = ''cloudflare-worker'',
         requiresReview = True, hash = ''00ff'',
         hashMatch = Some \<lparr>matched = False, computedHash = ''00ff'', matchedHash = None,
                           similarity = None\<rparr>,
         apiDetection = Some \<lparr>detected = True, confidence = 9 / 10,
                              provider = ''cloudflare-worker'', labels = Some [''NSFW''],
                              error = None\<rparr>\<rparr>"
       "\<lparr>guildsCache = [''g1''], banError = (\<lambda>g. None), deleteThrows = False,
      reactThrows = False, modChannel = False, sendThrows = False\<rparr>"
       "\<lparr>msgId = ''m1'', authorId = ''u1'', msgGuildId = ''g1'', msgChannelId = ''c1''\<rparr>"
       "''https://cdn.example/a.png''"
       "\<lparr>detectionEnabled = True, autoDelete = True, autoBan = True\<rparr>"
       "\<lparr>users = Map.empty, bans = [], timeouts = [], detections = [], moderatorReviews = [],
      effects = []\<rparr>"]
  by (simp add: processImageAttachment_def handleReviewRequired_def findLatestDetection_def)

text \<open>
  Claim C10 as stated has a pending review item created and the moderators notified for
  every result that requires review. When \<^verbatim>\<open>message.react\<close> throws, the handler's
  \<^verbatim>\<open>catch\<close> ends it there: the reaction is the only call, and no review item exists.
\<close>

theorem review_without_item_counterexample:
  "processImageAttachment
     \<lparr>guildsCache = [''g1''], banError = (\<lambda>g. None), deleteThrows = False,
      reactThrows = True, modChannel = False, sendThrows = False\<rparr>
     \<lparr>msgId = ''m1'', authorId = ''u1'', msgGuildId = ''g1'', msgChannelId = ''c1''\<rparr>
     ''https://cdn.example/a.png''
     \<lparr>detectionEnabled = True, autoDelete = True, autoBan = True\<rparr>
     (Inr \<lparr>flagged = False, confidence = 75 / 100, method = ''sightengine'',
         requiresReview = True, hash = ''00ff'',
         hashMatch = Some \<lparr>matched = False, computedHash = ''00ff'', matchedHash = None,
                           similarity = None\<rparr>,
         apiDetection = Some \<lparr>detected = False, confidence = 75 / 100,
                              provider = ''sightengine'', labels = Some [], error = None\<rparr>\<rparr>)
     \<lparr>users = Map.empty, bans = [], timeouts = [], detections = [], moderatorReviews = [],
      effects = []\<rparr> =
   \<lparr>users = Map.empty, bans = [], timeouts = [],
    detections = [\<lparr>Detection.userId = ''u1'', Detection.guildId = ''g1'', channelId = ''c1'',
                   messageId = ''m1'', imageUrl = ''https://cdn.example/a.png'',
                   imageHash = ''00ff'', detectionMethod = ''sightengine'',
                   confidenceScore = 75 / 100, Detection.flagged = False,
                   actionTaken = ''none''\<rparr>],
    moderatorReviews = [],
    effects = [React ''m1'']\<rparr>"
  by (simp add: processImageAttachment_def handleReviewRequired_def)

end
